theory Spec2Isabelle
  imports Main "HOL-Library.Char_ord" "HOL-Library.List_Lexorder" "HOL-Library.Multiset"
begin

section \<open>The storage subsystem of server.ts\<close>

text \<open>
  The server keeps two SQLite tables (\<open>folders\<close>, \<open>files\<close>) and a flat directory of
  blobs (\<open>UPLOADS_DIR\<close>). Every Express handler of \<open>server.ts\<close> is embedded as a
  function from the state before the request to the state after it and the response
  sent. What a handler reads from its surroundings (\<open>Math.random()\<close>, \<open>Date.now()\<close>,
  \<open>CURRENT_TIMESTAMP\<close>, whether an \<open>unlink\<close> system call fails) is passed in as an
  \<open>env\<close> record.

  The folder reference of a request body (\<open>parentId\<close>, \<open>folderId\<close>) is a \<open>wire\<close>
  value: absent, null, a string or an array, since the handlers check no type. The
  other wire fields (\<open>name\<close>, \<open>id\<close>, \<open>type\<close>, \<open>newName\<close>, the query's \<open>folderId\<close>)
  are \<open>string option\<close>, \<open>None\<close> for an absent field. Numbers, booleans and objects are
  left out: a number is stored as its decimal text, the driver refuses the other two.
  Route parameters (\<open>req.params.id\<close>) are plain strings. A failure of the database
  file itself (locked, disk full) is not modelled; the failing statements are an
  \<open>INSERT\<close> that violates a primary key, a \<open>run\<close> whose arguments the driver cannot
  bind, and a \<open>SUM\<close> that overflows.
\<close>

subsection \<open>Tables\<close>

text \<open>
  One record per row, columns as in the \<open>CREATE TABLE\<close> statements. A nullable
  \<open>TEXT\<close> column is a \<open>string option\<close>. Timestamps are seconds (the text
  \<open>YYYY-MM-DD HH:MM:SS\<close> of \<open>CURRENT_TIMESTAMP\<close> orders as the number does);
  \<open>size\<close> is the byte count of a stored payload.
\<close>

record folder_row =
  fo_id :: string
  fo_name :: string
  parent_id :: "string option"
  created_at :: nat

record file_row =
  fi_id :: string
  fi_name :: string
  original_name :: string
  mime_type :: string
  fi_size :: nat
  folder_id :: "string option"
  upload_date :: nat

subsection \<open>Wire values\<close>

datatype wire = Undefined | Null | Str string | Arr "wire list"

subsection \<open>File system\<close>

type_synonym fs = "string \<rightharpoonup> string"

datatype io_error = ENOENT | EIO

definition UPLOADS_DIR :: string where
  "UPLOADS_DIR = ''uploads''"

text \<open>\<open>path.join(dir, name)\<close> for a name of one component, which is what multer produces.\<close>

definition path_join :: "string \<Rightarrow> string \<Rightarrow> string" where
  "path_join dir name = dir @ ''/'' @ name"

definition existsSync :: "fs \<Rightarrow> string \<Rightarrow> bool" where
  "existsSync d p = (d p \<noteq> None)"

text \<open>
  \<open>fs.unlinkSync(p)\<close>: throws when the path is absent, or when the system call fails
  for another reason (\<open>throws p\<close>, given by the environment); removes the entry otherwise.
\<close>

definition unlinkSync :: "(string \<Rightarrow> bool) \<Rightarrow> fs \<Rightarrow> string \<Rightarrow> io_error + fs" where
  "unlinkSync throws d p =
     (if d p = None then Inl ENOENT
      else if throws p then Inl EIO
      else Inr (d(p := None)))"

subsection \<open>State, environment, responses\<close>

record state =
  folders :: "folder_row list"
  files :: "file_row list"
  disk :: fs

definition init :: state where
  "init = \<lparr>folders = [], files = [], disk = Map.empty\<rparr>"

record env =
  random_id :: string       \<comment> \<open>\<open>Math.random().toString(36).substring(2, 15)\<close>\<close>
  unique_suffix :: string   \<comment> \<open>\<open>Date.now() + "-" + Math.round(Math.random() * 1e9)\<close>\<close>
  timestamp :: nat          \<comment> \<open>\<open>CURRENT_TIMESTAMP\<close>\<close>
  unlink_throws :: "string \<Rightarrow> bool"

text \<open>
  A \<open>res.json(...)\<close> body of status 200 is one constructor per shape; \<open>Error n msg\<close> is
  \<open>res.status(n).json({ error: msg })\<close>. \<open>Attachment bytes name\<close> is the answer 200
  that carries a blob as a download named \<open>name\<close>, \<open>Inline bytes\<close> the answer 200 that
  carries it for display, and \<open>ErrorPage n\<close> the HTML page of status \<open>n\<close> that Express's
  default error handler sends.
\<close>

datatype response =
    Contents "folder_row list" "file_row list"
  | Created string string
  | Success
  | Files "file_row list"
  | Stats nat nat
  | Attachment string string
  | Inline string
  | ErrorPage nat
  | Error nat string

fun status :: "response \<Rightarrow> nat" where
  "status (Error n msg) = n"
| "status (ErrorPage n) = n"
| "status r = 200"

text \<open>
  \<open>res.download(filePath, name)\<close> and \<open>res.sendFile(filePath)\<close> of Express, called
  without a callback: the file is streamed when it exists; when it does not, the
  \<open>ENOENT\<close> error (status 404) is passed to \<open>next\<close> and the default error handler
  answers with it.
\<close>

definition res_download :: "fs \<Rightarrow> string \<Rightarrow> string \<Rightarrow> response" where
  "res_download d filePath name =
     (case d filePath of None \<Rightarrow> ErrorPage 404 | Some bytes \<Rightarrow> Attachment bytes name)"

definition res_sendFile :: "fs \<Rightarrow> string \<Rightarrow> response" where
  "res_sendFile d filePath =
     (case d filePath of None \<Rightarrow> ErrorPage 404 | Some bytes \<Rightarrow> Inline bytes)"

subsection \<open>SQL statements\<close>

datatype db_error =
    SQLITE_CONSTRAINT_PRIMARYKEY
  | SQLITE_INTEGER_OVERFLOW
  | TypeError
  | RangeError

text \<open>
  The driver (better-sqlite3) binds the arguments of \<open>run\<close> to the \<open>?\<close> of the statement
  in order. A string is bound as text, \<open>null\<close> and \<open>undefined\<close> as \<open>NULL\<close>; an argument
  that is an array stands for its elements, each bound as a value of its own, so
  that \<open>run(a, b, [c])\<close> is \<open>run(a, b, c)\<close>; an array inside an array is not a value
  (\<open>TypeError\<close>), and more or fewer values than \<open>?\<close> is a \<open>RangeError\<close>.
  \<open>bind_last v\<close> is what the last \<open>?\<close> receives when the arguments before it are
  strings and the last argument is \<open>v\<close>.
\<close>

definition bind_value :: "wire \<Rightarrow> db_error + string option" where
  "bind_value v =
     (case v of
        Undefined \<Rightarrow> Inr None
      | Null \<Rightarrow> Inr None
      | Str x \<Rightarrow> Inr (Some x)
      | Arr vs \<Rightarrow> Inl TypeError)"

definition bind_last :: "wire \<Rightarrow> db_error + string option" where
  "bind_last v =
     (case v of
        Arr vs \<Rightarrow> (case vs of [x] \<Rightarrow> bind_value x | others \<Rightarrow> Inl RangeError)
      | value \<Rightarrow> bind_value value)"

text \<open>\<open>INSERT INTO folders\<close>: \<open>id\<close> is the primary key, a second row with it is refused.\<close>

definition insert_folder :: "folder_row list \<Rightarrow> folder_row \<Rightarrow> db_error + folder_row list" where
  "insert_folder t r =
     (if fo_id r \<in> set (map fo_id t) then Inl SQLITE_CONSTRAINT_PRIMARYKEY else Inr (t @ [r]))"

definition insert_file :: "file_row list \<Rightarrow> file_row \<Rightarrow> db_error + file_row list" where
  "insert_file t r =
     (if fi_id r \<in> set (map fi_id t) then Inl SQLITE_CONSTRAINT_PRIMARYKEY else Inr (t @ [r]))"

text \<open>\<open>ORDER BY k DESC\<close>, rows of equal key in table order.\<close>

definition order_desc :: "('a \<Rightarrow> nat) \<Rightarrow> 'a list \<Rightarrow> 'a list" where
  "order_desc k rows = rev (sort_key k (rev rows))"

text \<open>
  \<open>SUM(size)\<close> is \<open>NULL\<close> over no rows. The column holds 64-bit integers: a sum above
  \<open>2^63 - 1\<close> is the error "integer overflow" (the sizes are not negative, so a partial
  sum overflows exactly when the whole sum does).
\<close>

definition sql_sum :: "nat list \<Rightarrow> db_error + nat option" where
  "sql_sum xs =
     (if xs = [] then Inr None
      else if sum_list xs > 9223372036854775807 then Inl SQLITE_INTEGER_OVERFLOW
      else Inr (Some (sum_list xs)))"

text \<open>
  The driver hands an integer of the database to JavaScript as a number, a double:
  exact below \<open>2^53\<close>, and above it rounded to 53 significant bits, a tie to the even
  neighbour. \<open>ulp_shift n\<close> is the number of low bits that do not fit.
\<close>

function ulp_shift :: "nat \<Rightarrow> nat" where
  "ulp_shift n = (if n < 2 ^ 53 then 0 else Suc (ulp_shift (n div 2)))"
  by pat_completeness auto
termination
  by (relation "measure (\<lambda>n. n)") auto

definition js_number :: "nat \<Rightarrow> nat" where
  "js_number n =
     (let k = ulp_shift n; q = n div 2 ^ k; r = n mod 2 ^ k
      in if 2 * r > 2 ^ k \<or> (2 * r = 2 ^ k \<and> odd q) then (q + 1) * 2 ^ k else q * 2 ^ k)"

text \<open>\<open>x || 0\<close> replaces \<open>NULL\<close> (and 0) by 0.\<close>

definition or0 :: "nat option \<Rightarrow> nat" where
  "or0 v = (case v of None \<Rightarrow> 0 | Some n \<Rightarrow> if n = 0 then 0 else n)"

subsection \<open>Handlers\<close>

text \<open>\<open>GET /api/contents\<close>\<close>

definition get_contents :: "state \<Rightarrow> string option \<Rightarrow> state \<times> response" where
  "get_contents s q =
     (let folderId = (if q = Some ''root'' then None else q);
          fos = sort_key fo_name (filter (\<lambda>r. parent_id r = folderId) (folders s));
          fis = order_desc upload_date (filter (\<lambda>r. folder_id r = folderId) (files s))
      in (s, Contents fos fis))"

text \<open>\<open>POST /api/folders\<close>\<close>

definition post_folders :: "env \<Rightarrow> state \<Rightarrow> string option \<Rightarrow> wire \<Rightarrow> state \<times> response" where
  "post_folders e s name parentId =
     (case name of
        None \<Rightarrow> (s, Error 400 ''Name is required'')
      | Some n \<Rightarrow>
          if n = [] then (s, Error 400 ''Name is required'')
          else
            let ident = random_id e;
                pId = (if parentId = Str ''root'' then Null else parentId)
            in (case bind_last pId of
                  Inl err \<Rightarrow> (s, Error 500 ''Failed to create folder'')
                | Inr p \<Rightarrow>
                    (case insert_folder (folders s)
                          \<lparr>fo_id = ident, fo_name = n, parent_id = p, created_at = timestamp e\<rparr> of
                       Inl err \<Rightarrow> (s, Error 500 ''Failed to create folder'')
                     | Inr t \<Rightarrow> (s\<lparr>folders := t\<rparr>, Created ident n))))"

text \<open>
  \<open>DELETE /api/folders/:id\<close>. The \<open>forEach\<close> over the names selected: a throwing
  \<open>unlinkSync\<close> leaves the loop, with the files unlinked so far gone.
\<close>

fun unlink_each :: "(string \<Rightarrow> bool) \<Rightarrow> fs \<Rightarrow> string list \<Rightarrow> fs \<times> io_error option" where
  "unlink_each throws d [] = (d, None)"
| "unlink_each throws d (n # ns) =
     (let filePath = path_join UPLOADS_DIR n in
      if existsSync d filePath then
        (case unlinkSync throws d filePath of
           Inl err \<Rightarrow> (d, Some err)
         | Inr d' \<Rightarrow> unlink_each throws d' ns)
      else unlink_each throws d ns)"

definition delete_folder :: "env \<Rightarrow> state \<Rightarrow> string \<Rightarrow> state \<times> response" where
  "delete_folder e s ident =
     (let filesInFolder = map fi_name (filter (\<lambda>r. folder_id r = Some ident) (files s))
      in case unlink_each (unlink_throws e) (disk s) filesInFolder of
           (d, Some err) \<Rightarrow> (s\<lparr>disk := d\<rparr>, Error 500 ''Failed to delete folder'')
         | (d, None) \<Rightarrow>
             (s\<lparr>disk := d,
                files := filter (\<lambda>r. folder_id r \<noteq> Some ident) (files s),
                folders := filter (\<lambda>r. fo_id r \<noteq> ident) (folders s)\<rparr>,
              Success))"

text \<open>\<open>GET /api/files\<close>\<close>

definition get_files :: "state \<Rightarrow> state \<times> response" where
  "get_files s = (s, Files (order_desc upload_date (files s)))"

text \<open>
  \<open>POST /api/upload\<close>. \<open>rf_size\<close> is the number of bytes written. The middleware \<open>upload.single("file")\<close> runs first: with a file
  part in the request it writes the payload under \<open>uniqueSuffix + "-" + originalname\<close>
  and sets \<open>req.file\<close>. (When that write fails the handler is not called at all.)
\<close>

record file_part =
  part_name :: string
  part_type :: string
  part_data :: string

record req_file =
  filename :: string
  originalname :: string
  mimetype :: string
  rf_size :: nat

definition upload_single :: "env \<Rightarrow> fs \<Rightarrow> file_part option \<Rightarrow> fs \<times> req_file option" where
  "upload_single e d part =
     (case part of
        None \<Rightarrow> (d, None)
      | Some p \<Rightarrow>
          let fname = unique_suffix e @ ''-'' @ part_name p
          in (d(path_join UPLOADS_DIR fname \<mapsto> part_data p),
              Some \<lparr>filename = fname, originalname = part_name p, mimetype = part_type p,
                    rf_size = length (part_data p)\<rparr>))"

definition post_upload :: "env \<Rightarrow> state \<Rightarrow> file_part option \<Rightarrow> wire \<Rightarrow> state \<times> response" where
  "post_upload e s part bodyFolderId =
     (case upload_single e (disk s) part of
        (d, None) \<Rightarrow> (s\<lparr>disk := d\<rparr>, Error 400 ''No file uploaded'')
      | (d, Some f) \<Rightarrow>
          let fileId = random_id e;
              folderId = (if bodyFolderId = Str ''root'' then Null else bodyFolderId)
          in (case bind_last folderId of
                Inl err \<Rightarrow> (s\<lparr>disk := d\<rparr>, Error 500 ''Failed to save file metadata'')
              | Inr fo \<Rightarrow>
                  (case insert_file (files s)
                        \<lparr>fi_id = fileId, fi_name = filename f, original_name = originalname f,
                         mime_type = mimetype f, fi_size = rf_size f, folder_id = fo,
                         upload_date = timestamp e\<rparr> of
                     Inl err \<Rightarrow> (s\<lparr>disk := d\<rparr>, Error 500 ''Failed to save file metadata'')
                   | Inr t \<Rightarrow> (s\<lparr>disk := d, files := t\<rparr>, Created fileId (originalname f)))))"

text \<open>\<open>GET /api/files/:id/download\<close> and \<open>GET /api/files/:id/view\<close>\<close>

definition get_download :: "state \<Rightarrow> string \<Rightarrow> state \<times> response" where
  "get_download s ident =
     (case find (\<lambda>r. fi_id r = ident) (files s) of
        None \<Rightarrow> (s, Error 404 ''File not found'')
      | Some file \<Rightarrow>
          (s, res_download (disk s) (path_join UPLOADS_DIR (fi_name file)) (original_name file)))"

definition get_view :: "state \<Rightarrow> string \<Rightarrow> state \<times> response" where
  "get_view s ident =
     (case find (\<lambda>r. fi_id r = ident) (files s) of
        None \<Rightarrow> (s, Error 404 ''File not found'')
      | Some file \<Rightarrow> (s, res_sendFile (disk s) (path_join UPLOADS_DIR (fi_name file))))"

text \<open>\<open>DELETE /api/files/:id\<close>\<close>

definition delete_file :: "env \<Rightarrow> state \<Rightarrow> string \<Rightarrow> state \<times> response" where
  "delete_file e s ident =
     (case find (\<lambda>r. fi_id r = ident) (files s) of
        None \<Rightarrow> (s, Error 404 ''File not found'')
      | Some file \<Rightarrow>
          let filePath = path_join UPLOADS_DIR (fi_name file)
          in (case (if existsSync (disk s) filePath
                    then unlinkSync (unlink_throws e) (disk s) filePath
                    else Inr (disk s)) of
                Inl err \<Rightarrow> (s, Error 500 ''Failed to delete file'')
              | Inr d \<Rightarrow>
                  (s\<lparr>disk := d, files := filter (\<lambda>r. fi_id r \<noteq> ident) (files s)\<rparr>, Success)))"

text \<open>
  \<open>POST /api/rename\<close>. \<open>!x\<close> holds of an absent field and of the empty string.
\<close>

definition falsy :: "string option \<Rightarrow> bool" where
  "falsy v = (case v of None \<Rightarrow> True | Some x \<Rightarrow> x = [])"

fun post_rename :: "state \<Rightarrow> string option \<Rightarrow> string option \<Rightarrow> string option \<Rightarrow> state \<times> response" where
  "post_rename s (Some ident) (Some type) (Some newName) =
     (if falsy (Some ident) \<or> falsy (Some type) \<or> falsy (Some newName)
      then (s, Error 400 ''Missing parameters'')
      else if type = ''file'' then
        (s\<lparr>files := map (\<lambda>r. if fi_id r = ident then r\<lparr>original_name := newName\<rparr> else r) (files s)\<rparr>,
         Success)
      else
        (s\<lparr>folders := map (\<lambda>r. if fo_id r = ident then r\<lparr>fo_name := newName\<rparr> else r) (folders s)\<rparr>,
         Success))"
| "post_rename s ident type newName = (s, Error 400 ''Missing parameters'')"

text \<open>\<open>GET /api/stats\<close>\<close>

definition get_stats :: "state \<Rightarrow> state \<times> response" where
  "get_stats s =
     (case sql_sum (map fi_size (files s)) of
        Inl err \<Rightarrow> (s, Error 500 ''Failed to fetch stats'')
      | Inr summed \<Rightarrow>
          let count = Some (js_number (length (files s)));
              totalSize = map_option js_number summed
          in (s, Stats (or0 count) (or0 totalSize)))"

subsection \<open>Requests and reachable states\<close>

datatype request =
    GetContents "string option"
  | PostFolders "string option" wire
  | DeleteFolder string
  | GetFiles
  | PostUpload "file_part option" wire
  | GetDownload string
  | DeleteFile string
  | GetView string
  | PostRename "string option" "string option" "string option"
  | GetStats

fun handle :: "env \<Rightarrow> state \<Rightarrow> request \<Rightarrow> state \<times> response" where
  "handle e s (GetContents q) = get_contents s q"
| "handle e s (PostFolders name parentId) = post_folders e s name parentId"
| "handle e s (DeleteFolder ident) = delete_folder e s ident"
| "handle e s GetFiles = get_files s"
| "handle e s (PostUpload part folderId) = post_upload e s part folderId"
| "handle e s (GetDownload ident) = get_download s ident"
| "handle e s (DeleteFile ident) = delete_file e s ident"
| "handle e s (GetView ident) = get_view s ident"
| "handle e s (PostRename ident type newName) = post_rename s ident type newName"
| "handle e s GetStats = get_stats s"

inductive reachable :: "state \<Rightarrow> bool" where
  reachable_init: "reachable init"
| reachable_step: "reachable s \<Longrightarrow> reachable (fst (handle e s r))"

subsection \<open>Sequences of uploads\<close>

text \<open>Uploads one after the other, each answered with status 200.\<close>

fun uploads :: "state \<Rightarrow> (env \<times> file_part \<times> wire) list \<Rightarrow> state option" where
  "uploads s [] = Some s"
| "uploads s ((e, p, folderId) # us) =
     (case post_upload e s (Some p) folderId of
        (s', Created fileId name) \<Rightarrow> uploads s' us
      | (s', other) \<Rightarrow> None)"

subsection \<open>Concrete inputs\<close>

definition never_throws :: "string \<Rightarrow> bool" where
  "never_throws p = False"

definition always_throws :: "string \<Rightarrow> bool" where
  "always_throws p = True"

definition env_of :: "string \<Rightarrow> string \<Rightarrow> nat \<Rightarrow> env" where
  "env_of rid suffix t =
     \<lparr>random_id = rid, unique_suffix = suffix, timestamp = t, unlink_throws = never_throws\<rparr>"

definition file_A :: file_part where
  "file_A = \<lparr>part_name = ''A.txt'', part_type = ''text/plain'', part_data = ''0123456789''\<rparr>"

definition file_B :: file_part where
  "file_B = \<lparr>part_name = ''B.txt'', part_type = ''text/plain'', part_data = ''xyz''\<rparr>"

definition row_A :: file_row where
  "row_A = \<lparr>fi_id = ''a1'', fi_name = ''17-42-A.txt'', original_name = ''A.txt'',
            mime_type = ''text/plain'', fi_size = 10, folder_id = Some ''f2'', upload_date = 3\<rparr>"

text \<open>
  The scenario of the specification: folder F1 at root, folder F2 inside F1, file A.txt
  (10 bytes) uploaded into F2.
\<close>

definition tree_state :: state where
  "tree_state =
     fst (post_upload (env_of ''a1'' ''17-42'' 3)
       (fst (post_folders (env_of ''f2'' ''16-7'' 2)
         (fst (post_folders (env_of ''f1'' ''15-9'' 1) init (Some ''F1'') (Str ''root'')))
         (Some ''F2'') (Str ''f1'')))
       (Some file_A) (Str ''f2''))"

text \<open>The same state after the blob of A.txt was removed from the directory by hand.\<close>

definition blob_lost_state :: state where
  "blob_lost_state = tree_state\<lparr>disk := Map.empty\<rparr>"

text \<open>B.txt uploaded with the folder id \<open>ghost\<close>, which no folder has.\<close>

definition ghost_state :: state where
  "ghost_state =
     fst (post_upload (env_of ''b1'' ''18-5'' 4) tree_state (Some file_B) (Str ''ghost''))"

text \<open>A.txt uploaded once more, at root, under the storage name of the first upload.\<close>

definition shared_blob_state :: state where
  "shared_blob_state =
     fst (post_upload (env_of ''a2'' ''17-42'' 4) tree_state (Some file_A) (Str ''root''))"

text \<open>A folder created with the body \<open>{"name": "F3", "parentId": ["root"]}\<close>.\<close>

definition array_root_state :: state where
  "array_root_state =
     fst (post_folders (env_of ''f3'' ''21-3'' 6) init (Some ''F3'') (Arr [Str ''root'']))"


subsection \<open>The sentinel and plain folder references\<close>

text \<open>A folder reference that is not an array, and a request whose reference is one.\<close>

fun plain :: "wire \<Rightarrow> bool" where
  "plain (Arr vs) = False"
| "plain v = True"

fun plain_request :: "request \<Rightarrow> bool" where
  "plain_request (PostFolders name parentId) = plain parentId"
| "plain_request (PostUpload part folderId) = plain folderId"
| "plain_request r = True"

inductive reachable_plain :: "state \<Rightarrow> bool" where
  plain_init: "reachable_plain init"
| plain_step: "reachable_plain s \<Longrightarrow> plain_request r \<Longrightarrow> reachable_plain (fst (handle e s r))"

definition no_root :: "state \<Rightarrow> bool" where
  "no_root s = (Some ''root'' \<notin> set (map parent_id (folders s)) \<and>
                Some ''root'' \<notin> set (map folder_id (files s)))"

section \<open>Properties\<close>

subsection \<open>The scenario state\<close>

lemma tree_state_eq:
  "tree_state = \<lparr>folders = [\<lparr>fo_id = ''f1'', fo_name = ''F1'', parent_id = None, created_at = 1\<rparr>,
                              \<lparr>fo_id = ''f2'', fo_name = ''F2'', parent_id = Some ''f1'', created_at = 2\<rparr>],
                  files = [row_A],
                  disk = [''uploads/17-42-A.txt'' \<mapsto> ''0123456789'']\<rparr>"
  by (simp add: tree_state_def post_upload_def post_folders_def env_of_def init_def file_A_def row_A_def
      insert_folder_def insert_file_def upload_single_def path_join_def UPLOADS_DIR_def Let_def
      bind_last_def bind_value_def)


subsection \<open>Listing\<close>

lemma sorted_order_desc: "sorted (rev (map k (order_desc k rows)))"
  by (simp add: order_desc_def rev_map [symmetric])

lemma mset_order_desc: "mset (order_desc k rows) = mset rows"
  by (simp add: order_desc_def)

text \<open>
  C8. For every folder id or \<open>root\<close> (null), \<open>GET /api/contents\<close> answers with exactly
  the folders whose \<open>parent_id\<close> and the files whose \<open>folder_id\<close> is that value (as
  multisets of rows), the folders in ascending order of name, the files in descending
  order of upload date, and the state is the one before the request.
\<close>

theorem list_contents_exact_sorted:
  "\<exists>fos fis.
     get_contents s q = (s, Contents fos fis) \<and>
     mset fos = mset (filter (\<lambda>r. parent_id r = (if q = Some ''root'' then None else q)) (folders s)) \<and>
     mset fis = mset (filter (\<lambda>r. folder_id r = (if q = Some ''root'' then None else q)) (files s)) \<and>
     sorted (map fo_name fos) \<and>
     sorted (rev (map upload_date fis))"
proof (intro exI conjI)
  show "get_contents s q =
      (s, Contents
            (sort_key fo_name (filter (\<lambda>r. parent_id r = (if q = Some ''root'' then None else q)) (folders s)))
            (order_desc upload_date (filter (\<lambda>r. folder_id r = (if q = Some ''root'' then None else q)) (files s))))"
    by (simp add: get_contents_def Let_def)
qed (simp_all add: sorted_order_desc mset_order_desc del: mset_filter)

text \<open>The listing of the root and of F2 in the scenario state.\<close>

theorem list_contents_exact_sorted_witness:
  "get_contents tree_state (Some ''root'') =
     (tree_state, Contents [\<lparr>fo_id = ''f1'', fo_name = ''F1'', parent_id = None, created_at = 1\<rparr>] []) \<and>
   get_contents tree_state (Some ''f2'') = (tree_state, Contents [] [row_A])"
  using list_contents_exact_sorted [of tree_state "Some ''root''"]
    list_contents_exact_sorted [of tree_state "Some ''f2''"]
  by (simp add: tree_state_eq get_contents_def order_desc_def row_A_def Let_def)

subsection \<open>Deleting a folder\<close>

lemma unlink_each_ok:
  "unlink_each t d ns = (d', None) \<Longrightarrow>
   d' = (\<lambda>p. if p \<in> path_join UPLOADS_DIR ` set ns then None else d p)"
proof (induction ns arbitrary: d)
  case Nil
  then show ?case by simp
next
  case (Cons n ns)
  show ?case
  proof (cases "existsSync d (path_join UPLOADS_DIR n)")
    case True
    with Cons.prems have run: "unlink_each t (d(path_join UPLOADS_DIR n := None)) ns = (d', None)"
      by (simp add: Let_def unlinkSync_def existsSync_def split: if_splits)
    show ?thesis
      using Cons.IH [OF run] by (auto simp: fun_eq_iff)
  next
    case False
    with Cons.prems have run: "unlink_each t d ns = (d', None)"
      by (simp add: Let_def)
    show ?thesis
      using Cons.IH [OF run] False by (auto simp: fun_eq_iff existsSync_def)
  qed
qed

lemma delete_folder_Success:
  assumes "delete_folder e s ident = (s', Success)"
  shows "s' = s\<lparr>disk := (\<lambda>p. if p \<in> path_join UPLOADS_DIR ` fi_name ` {r \<in> set (files s). folder_id r = Some ident}
                            then None else disk s p),
                files := filter (\<lambda>r. folder_id r \<noteq> Some ident) (files s),
                folders := filter (\<lambda>r. fo_id r \<noteq> ident) (folders s)\<rparr>"
proof -
  obtain d err where u: "unlink_each (unlink_throws e) (disk s)
      (map fi_name (filter (\<lambda>r. folder_id r = Some ident) (files s))) = (d, err)"
    by (cases "unlink_each (unlink_throws e) (disk s)
      (map fi_name (filter (\<lambda>r. folder_id r = Some ident) (files s)))") 
  with assms have none: "err = None"
    by (cases err) (simp_all add: delete_folder_def Let_def)
  from unlink_each_ok [OF u [unfolded none]] have "d = (\<lambda>p. if p \<in> path_join UPLOADS_DIR ` fi_name ` {r \<in> set (files s). folder_id r = Some ident}
                            then None else disk s p)"
    by (simp add: image_image)
  with assms u none show ?thesis
    by (simp add: delete_folder_def Let_def)
qed

lemma unlink_each_result:
  "snd (unlink_each t d ns) =
     (if \<exists>n \<in> set ns. existsSync d (path_join UPLOADS_DIR n) \<and> t (path_join UPLOADS_DIR n)
      then Some EIO else None)"
proof (induction ns arbitrary: d)
  case Nil
  then show ?case by simp
next
  case (Cons n ns)
  show ?case
  proof (cases "existsSync d (path_join UPLOADS_DIR n)")
    case False
    with Cons.IH [of d] show ?thesis
      by (auto simp: Let_def)
  next
    case present: True
    show ?thesis
    proof (cases "t (path_join UPLOADS_DIR n)")
      case True
      with present show ?thesis
        by (auto simp: Let_def unlinkSync_def existsSync_def)
    next
      case False
      have same: "(\<exists>m \<in> set ns. existsSync (d(path_join UPLOADS_DIR n := None)) (path_join UPLOADS_DIR m) \<and>
                    t (path_join UPLOADS_DIR m)) =
                  (\<exists>m \<in> set ns. existsSync d (path_join UPLOADS_DIR m) \<and> t (path_join UPLOADS_DIR m))"
        using False by (intro bex_cong refl) (auto simp: existsSync_def)
      from Cons.IH [of "d(path_join UPLOADS_DIR n := None)"]
      have ih: "snd (unlink_each t (d(path_join UPLOADS_DIR n := None)) ns) =
          (if \<exists>m \<in> set ns. existsSync d (path_join UPLOADS_DIR m) \<and> t (path_join UPLOADS_DIR m)
           then Some EIO else None)"
        unfolding same .
      from present False
      have step: "unlink_each t d (n # ns) = unlink_each t (d(path_join UPLOADS_DIR n := None)) ns"
        by (auto simp: Let_def unlinkSync_def existsSync_def)
      from False
      have "(\<exists>m \<in> set (n # ns). existsSync d (path_join UPLOADS_DIR m) \<and> t (path_join UPLOADS_DIR m)) =
            (\<exists>m \<in> set ns. existsSync d (path_join UPLOADS_DIR m) \<and> t (path_join UPLOADS_DIR m))"
        by auto
      then show ?thesis
        unfolding step ih by simp
    qed
  qed
qed

lemma delete_folder_response:
  "snd (delete_folder e s ident) =
     (if \<exists>r \<in> set (files s). folder_id r = Some ident \<and>
           existsSync (disk s) (path_join UPLOADS_DIR (fi_name r)) \<and>
           unlink_throws e (path_join UPLOADS_DIR (fi_name r))
      then Error 500 ''Failed to delete folder'' else Success)"
proof -
  obtain d err where u: "unlink_each (unlink_throws e) (disk s)
      (map fi_name (filter (\<lambda>r. folder_id r = Some ident) (files s))) = (d, err)"
    by (cases "unlink_each (unlink_throws e) (disk s)
      (map fi_name (filter (\<lambda>r. folder_id r = Some ident) (files s)))")
  have rows: "(\<exists>n \<in> set (map fi_name (filter (\<lambda>r. folder_id r = Some ident) (files s))).
                 existsSync (disk s) (path_join UPLOADS_DIR n) \<and>
                 unlink_throws e (path_join UPLOADS_DIR n)) =
              (\<exists>r \<in> set (files s). folder_id r = Some ident \<and>
                 existsSync (disk s) (path_join UPLOADS_DIR (fi_name r)) \<and>
                 unlink_throws e (path_join UPLOADS_DIR (fi_name r)))"
    by auto
  from u have "err = snd (unlink_each (unlink_throws e) (disk s)
      (map fi_name (filter (\<lambda>r. folder_id r = Some ident) (files s))))"
    by simp
  then have err: "err = (if \<exists>r \<in> set (files s). folder_id r = Some ident \<and>
           existsSync (disk s) (path_join UPLOADS_DIR (fi_name r)) \<and>
           unlink_throws e (path_join UPLOADS_DIR (fi_name r))
      then Some EIO else None)"
    unfolding unlink_each_result rows .
  show ?thesis
  proof (cases "\<exists>r \<in> set (files s). folder_id r = Some ident \<and>
           existsSync (disk s) (path_join UPLOADS_DIR (fi_name r)) \<and>
           unlink_throws e (path_join UPLOADS_DIR (fi_name r))")
    case True
    with err have "err = Some EIO"
      by simp
    with u True show ?thesis
      by (simp add: delete_folder_def Let_def)
  next
    case False
    with err have "err = None"
      by simp
    with u False show ?thesis
      by (simp add: delete_folder_def Let_def)
  qed
qed

text \<open>
  C2 (as amended). A successful \<open>DELETE /api/folders/:id\<close> removes the folder row of
  that id, every file row whose \<open>folder_id\<close> is that id, and every blob stored under
  the name of such a file. Nothing else is removed: every other folder row (a child
  folder of the deleted one too) and every other file row stays, and so does every
  blob whose path is not the path of a file directly in the folder; a file elsewhere
  that shares its storage name with a file in the folder keeps its row and loses the
  blob. \<open>GET /api/files\<close> afterwards lists the files that were not directly in the
  folder.
\<close>

theorem delete_folder_direct_only:
  "delete_folder e s ident = (s', Success) \<Longrightarrow>
     s' = s\<lparr>disk := (\<lambda>p. if p \<in> path_join UPLOADS_DIR ` fi_name `
                                 {r \<in> set (files s). folder_id r = Some ident}
                           then None else disk s p),
            files := filter (\<lambda>r. folder_id r \<noteq> Some ident) (files s),
            folders := filter (\<lambda>r. fo_id r \<noteq> ident) (folders s)\<rparr> \<and>
     (\<forall>r \<in> set (files s). folder_id r = Some ident \<longrightarrow>
        \<not> existsSync (disk s') (path_join UPLOADS_DIR (fi_name r))) \<and>
     (\<forall>p. p \<notin> path_join UPLOADS_DIR ` fi_name ` {r \<in> set (files s). folder_id r = Some ident} \<longrightarrow>
        disk s' p = disk s p) \<and>
     get_files s' = (s', Files (order_desc upload_date (filter (\<lambda>r. folder_id r \<noteq> Some ident) (files s))))"
proof -
  assume "delete_folder e s ident = (s', Success)"
  from delete_folder_Success [OF this]
  have s': "s' = s\<lparr>disk := (\<lambda>p. if p \<in> path_join UPLOADS_DIR ` fi_name `
                                 {r \<in> set (files s). folder_id r = Some ident}
                           then None else disk s p),
            files := filter (\<lambda>r. folder_id r \<noteq> Some ident) (files s),
            folders := filter (\<lambda>r. fo_id r \<noteq> ident) (folders s)\<rparr>" .
  have "\<forall>r \<in> set (files s). folder_id r = Some ident \<longrightarrow>
        \<not> existsSync (disk s') (path_join UPLOADS_DIR (fi_name r))"
    unfolding s' by (auto simp: existsSync_def)
  moreover have "\<forall>p. p \<notin> path_join UPLOADS_DIR ` fi_name ` {r \<in> set (files s). folder_id r = Some ident} \<longrightarrow>
        disk s' p = disk s p"
    unfolding s' by simp
  moreover have "get_files s' =
      (s', Files (order_desc upload_date (filter (\<lambda>r. folder_id r \<noteq> Some ident) (files s))))"
    unfolding s' by (simp add: get_files_def)
  ultimately show ?thesis
    using s' by blast
qed

text \<open>
  Deleting F2 in the scenario state removes F2, A.txt and its blob, and keeps F1. With
  a second file at root stored under the name of A.txt, deleting F2 keeps the row of
  that file and removes the blob they share.
\<close>

theorem delete_folder_direct_only_witness:
  "delete_folder (env_of ''r'' ''19-1'' 5) tree_state ''f2'' =
     (tree_state\<lparr>disk := Map.empty, files := [], folders := [\<lparr>fo_id = ''f1'', fo_name = ''F1'', parent_id = None, created_at = 1\<rparr>]\<rparr>, Success) \<and>
   \<not> existsSync Map.empty (path_join UPLOADS_DIR (fi_name row_A)) \<and>
   snd (delete_folder (env_of ''r'' ''19-1'' 5) shared_blob_state ''f2'') = Success \<and>
   map fi_id (files (fst (delete_folder (env_of ''r'' ''19-1'' 5) shared_blob_state ''f2''))) = [''a2''] \<and>
   map fi_name (files (fst (delete_folder (env_of ''r'' ''19-1'' 5) shared_blob_state ''f2''))) = [''17-42-A.txt''] \<and>
   disk (fst (delete_folder (env_of ''r'' ''19-1'' 5) shared_blob_state ''f2'')) ''uploads/17-42-A.txt'' = None"
proof -
  have h: "delete_folder (env_of ''r'' ''19-1'' 5) tree_state ''f2'' =
     (tree_state\<lparr>disk := Map.empty, files := [], folders := [\<lparr>fo_id = ''f1'', fo_name = ''F1'', parent_id = None, created_at = 1\<rparr>]\<rparr>, Success)"
    by (simp add: tree_state_eq delete_folder_def Let_def env_of_def never_throws_def
      row_A_def existsSync_def unlinkSync_def path_join_def UPLOADS_DIR_def)
  have g: "delete_folder (env_of ''r'' ''19-1'' 5) shared_blob_state ''f2'' =
     (fst (delete_folder (env_of ''r'' ''19-1'' 5) shared_blob_state ''f2''), Success)"
    by (simp add: shared_blob_state_def tree_state_eq post_upload_def upload_single_def insert_file_def
      bind_last_def bind_value_def file_A_def delete_folder_def Let_def env_of_def never_throws_def
      row_A_def existsSync_def unlinkSync_def path_join_def UPLOADS_DIR_def)
  have st: "files shared_blob_state =
      [row_A, \<lparr>fi_id = ''a2'', fi_name = ''17-42-A.txt'', original_name = ''A.txt'',
               mime_type = ''text/plain'', fi_size = 10, folder_id = None, upload_date = 4\<rparr>]"
    by (simp add: shared_blob_state_def tree_state_eq post_upload_def upload_single_def insert_file_def
      bind_last_def bind_value_def file_A_def Let_def env_of_def row_A_def)
  from delete_folder_direct_only [OF h, THEN conjunct2, THEN conjunct1, rule_format, of row_A]
  have a: "\<not> existsSync Map.empty (path_join UPLOADS_DIR (fi_name row_A))"
    by (simp add: tree_state_eq row_A_def)
  from delete_folder_direct_only [OF g, THEN conjunct1]
  have b: "files (fst (delete_folder (env_of ''r'' ''19-1'' 5) shared_blob_state ''f2'')) =
      filter (\<lambda>r. folder_id r \<noteq> Some ''f2'') (files shared_blob_state)"
    by simp
  from delete_folder_direct_only [OF g, THEN conjunct2, THEN conjunct1, rule_format, of row_A]
  have c: "disk (fst (delete_folder (env_of ''r'' ''19-1'' 5) shared_blob_state ''f2''))
      ''uploads/17-42-A.txt'' = None"
    by (simp add: st row_A_def existsSync_def path_join_def UPLOADS_DIR_def)
  from g have "snd (delete_folder (env_of ''r'' ''19-1'' 5) shared_blob_state ''f2'') = Success"
    by (cases "delete_folder (env_of ''r'' ''19-1'' 5) shared_blob_state ''f2''") simp
  with h a b c show ?thesis
    by (simp add: st row_A_def)
qed

text \<open>
  C2 as stated fails: deleting F1 in the scenario state succeeds, yet \<open>GET /api/files\<close>
  still lists A.txt, its blob is still in the directory, and the row of F2 is still
  in the table.
\<close>

theorem delete_folder_recursive_counterexample:
  "snd (delete_folder (env_of ''r'' ''19-1'' 5) tree_state ''f1'') = Success \<and>
   snd (get_files (fst (delete_folder (env_of ''r'' ''19-1'' 5) tree_state ''f1''))) = Files [row_A] \<and>
   existsSync (disk (fst (delete_folder (env_of ''r'' ''19-1'' 5) tree_state ''f1'')))
     (path_join UPLOADS_DIR (fi_name row_A)) \<and>
   map fo_id (folders (fst (delete_folder (env_of ''r'' ''19-1'' 5) tree_state ''f1''))) = [''f2'']"
  by (simp add: tree_state_eq delete_folder_def get_files_def order_desc_def Let_def env_of_def
      row_A_def existsSync_def path_join_def UPLOADS_DIR_def)

text \<open>
  C3 (as amended). \<open>DELETE /api/folders/:id\<close> looks no folder up and has no 404
  answer. For an id that is the id of no folder row it leaves the folders table as it
  is; it answers 500 exactly when \<open>unlinkSync\<close> throws on the existing blob of a file
  row that carries the id as \<open>folder_id\<close>, and with success otherwise; when no file
  row carries the id the answer is success and the state is unchanged.
\<close>

theorem delete_folder_unknown_id:
  "ident \<notin> set (map fo_id (folders s)) \<Longrightarrow>
     folders (fst (delete_folder e s ident)) = folders s \<and>
     snd (delete_folder e s ident) =
       (if \<exists>r \<in> set (files s). folder_id r = Some ident \<and>
             existsSync (disk s) (path_join UPLOADS_DIR (fi_name r)) \<and>
             unlink_throws e (path_join UPLOADS_DIR (fi_name r))
        then Error 500 ''Failed to delete folder'' else Success) \<and>
     ((\<forall>r \<in> set (files s). folder_id r \<noteq> Some ident) \<longrightarrow> delete_folder e s ident = (s, Success))"
proof (intro conjI impI)
  assume unknown: "ident \<notin> set (map fo_id (folders s))"
  then have keep: "filter (\<lambda>r. fo_id r \<noteq> ident) (folders s) = folders s"
    by (auto simp: filter_id_conv)
  obtain d err where u: "unlink_each (unlink_throws e) (disk s)
      (map fi_name (filter (\<lambda>r. folder_id r = Some ident) (files s))) = (d, err)"
    by (cases "unlink_each (unlink_throws e) (disk s)
      (map fi_name (filter (\<lambda>r. folder_id r = Some ident) (files s)))")
  from u keep show "folders (fst (delete_folder e s ident)) = folders s"
    by (cases err) (simp_all add: delete_folder_def Let_def)
  show "snd (delete_folder e s ident) =
       (if \<exists>r \<in> set (files s). folder_id r = Some ident \<and>
             existsSync (disk s) (path_join UPLOADS_DIR (fi_name r)) \<and>
             unlink_throws e (path_join UPLOADS_DIR (fi_name r))
        then Error 500 ''Failed to delete folder'' else Success)"
    by (rule delete_folder_response)
  show "delete_folder e s ident = (s, Success)"
    if "\<forall>r \<in> set (files s). folder_id r \<noteq> Some ident"
  proof -
    from that have none: "filter (\<lambda>r. folder_id r = Some ident) (files s) = []"
      by (auto simp: filter_empty_conv)
    from that have all: "filter (\<lambda>r. folder_id r \<noteq> Some ident) (files s) = files s"
      by (auto simp: filter_id_conv)
    show ?thesis
      by (simp add: delete_folder_def Let_def none all keep)
  qed
qed

text \<open>
  No folder has the id \<open>nope\<close> or \<open>ghost\<close>. Deleting \<open>nope\<close> succeeds and changes
  nothing; deleting \<open>ghost\<close>, under which B.txt is filed, succeeds when \<open>unlinkSync\<close>
  works and answers 500 when it throws.
\<close>

theorem delete_folder_unknown_id_witness:
  "''nope'' \<notin> set (map fo_id (folders tree_state)) \<and>
   Some ''nope'' \<notin> set (map folder_id (files tree_state)) \<and>
   delete_folder (env_of ''r'' ''19-1'' 5) tree_state ''nope'' = (tree_state, Success) \<and>
   ''ghost'' \<notin> set (map fo_id (folders ghost_state)) \<and>
   snd (delete_folder (env_of ''r'' ''19-1'' 5) ghost_state ''ghost'') = Success \<and>
   snd (delete_folder (env_of ''r'' ''19-1'' 5\<lparr>unlink_throws := always_throws\<rparr>) ghost_state ''ghost'') =
     Error 500 ''Failed to delete folder''"
proof -
  have h: "''nope'' \<notin> set (map fo_id (folders tree_state))"
    by (simp add: tree_state_eq)
  have g: "\<forall>r \<in> set (files tree_state). folder_id r \<noteq> Some ''nope''"
    by (simp add: tree_state_eq row_A_def)
  have st: "ghost_state = tree_state
      \<lparr>disk := [''uploads/17-42-A.txt'' \<mapsto> ''0123456789'', ''uploads/18-5-B.txt'' \<mapsto> ''xyz''],
       files := [row_A, \<lparr>fi_id = ''b1'', fi_name = ''18-5-B.txt'', original_name = ''B.txt'',
                         mime_type = ''text/plain'', fi_size = 3, folder_id = Some ''ghost'',
                         upload_date = 4\<rparr>]\<rparr>"
    by (simp add: ghost_state_def tree_state_eq post_upload_def upload_single_def insert_file_def
      bind_last_def bind_value_def file_B_def Let_def env_of_def row_A_def path_join_def UPLOADS_DIR_def)
  have k: "''ghost'' \<notin> set (map fo_id (folders ghost_state))"
    by (simp add: st tree_state_eq)
  from delete_folder_unknown_id [OF h, of "env_of ''r'' ''19-1'' 5"]
    delete_folder_unknown_id [OF k, of "env_of ''r'' ''19-1'' 5"]
    delete_folder_unknown_id [OF k, of "env_of ''r'' ''19-1'' 5\<lparr>unlink_throws := always_throws\<rparr>"]
    h g k
  show ?thesis
    by (simp add: st tree_state_eq row_A_def env_of_def never_throws_def always_throws_def
        existsSync_def path_join_def UPLOADS_DIR_def)
qed

text \<open>C3 as stated fails: no folder has the id \<open>nope\<close>, and deleting it succeeds.\<close>

theorem delete_folder_not_found_counterexample:
  "''nope'' \<notin> set (map fo_id (folders tree_state)) \<and>
   delete_folder (env_of ''r'' ''19-1'' 5) tree_state ''nope'' = (tree_state, Success)"
  by (simp add: tree_state_eq delete_folder_def Let_def env_of_def row_A_def)

subsection \<open>Deleting a file\<close>

lemma find_filter_other: "find (\<lambda>r. fi_id r = i) (filter (\<lambda>r. fi_id r \<noteq> i) xs) = None"
  by (induction xs) auto

lemma delete_file_cases:
  assumes "find (\<lambda>r. fi_id r = ident) (files s) = Some f"
  shows "delete_file e s ident =
       (if \<not> existsSync (disk s) (path_join UPLOADS_DIR (fi_name f))
        then (s\<lparr>files := filter (\<lambda>r. fi_id r \<noteq> ident) (files s)\<rparr>, Success)
        else if unlink_throws e (path_join UPLOADS_DIR (fi_name f))
        then (s, Error 500 ''Failed to delete file'')
        else (s\<lparr>disk := (disk s)(path_join UPLOADS_DIR (fi_name f) := None),
                files := filter (\<lambda>r. fi_id r \<noteq> ident) (files s)\<rparr>, Success))"
  using assms by (simp add: delete_file_def Let_def unlinkSync_def existsSync_def)

lemma delete_file_not_found:
  "find (\<lambda>r. fi_id r = ident) (files s) = None \<Longrightarrow>
   delete_file e s ident = (s, Error 404 ''File not found'')"
  by (simp add: delete_file_def)

text \<open>
  C5. For an existing file row, \<open>DELETE /api/files/:id\<close> unlinks the blob before it
  deletes the row: with the blob already absent it deletes the row and succeeds; with
  a throwing \<open>unlinkSync\<close> it answers 500 and the state, the row included, is as
  before; otherwise blob and row are both gone. After a success the row and the blob
  are absent, and every further \<open>DELETE\<close> of the id answers 404 and changes nothing.
\<close>

theorem delete_file_blob_then_row:
  "find (\<lambda>r. fi_id r = ident) (files s) = Some f \<Longrightarrow>
     delete_file e s ident =
       (if \<not> existsSync (disk s) (path_join UPLOADS_DIR (fi_name f))
        then (s\<lparr>files := filter (\<lambda>r. fi_id r \<noteq> ident) (files s)\<rparr>, Success)
        else if unlink_throws e (path_join UPLOADS_DIR (fi_name f))
        then (s, Error 500 ''Failed to delete file'')
        else (s\<lparr>disk := (disk s)(path_join UPLOADS_DIR (fi_name f) := None),
                files := filter (\<lambda>r. fi_id r \<noteq> ident) (files s)\<rparr>, Success)) \<and>
     (\<forall>s'. delete_file e s ident = (s', Success) \<longrightarrow>
        find (\<lambda>r. fi_id r = ident) (files s') = None \<and>
        \<not> existsSync (disk s') (path_join UPLOADS_DIR (fi_name f)) \<and>
        (\<forall>e'. delete_file e' s' ident = (s', Error 404 ''File not found'')))"
proof (intro conjI allI impI)
  show "delete_file e s ident =
       (if \<not> existsSync (disk s) (path_join UPLOADS_DIR (fi_name f))
        then (s\<lparr>files := filter (\<lambda>r. fi_id r \<noteq> ident) (files s)\<rparr>, Success)
        else if unlink_throws e (path_join UPLOADS_DIR (fi_name f))
        then (s, Error 500 ''Failed to delete file'')
        else (s\<lparr>disk := (disk s)(path_join UPLOADS_DIR (fi_name f) := None),
                files := filter (\<lambda>r. fi_id r \<noteq> ident) (files s)\<rparr>, Success))"
    if "find (\<lambda>r. fi_id r = ident) (files s) = Some f"
    using that by (rule delete_file_cases)
next
  fix s'
  assume f: "find (\<lambda>r. fi_id r = ident) (files s) = Some f"
    and ok: "delete_file e s ident = (s', Success)"
  from ok show gone: "find (\<lambda>r. fi_id r = ident) (files s') = None"
    unfolding delete_file_cases [OF f] by (auto simp: find_filter_other split: if_splits)
  from ok show "\<not> existsSync (disk s') (path_join UPLOADS_DIR (fi_name f))"
    unfolding delete_file_cases [OF f] by (auto simp: existsSync_def split: if_splits)
  show "delete_file e' s' ident = (s', Error 404 ''File not found'')" for e'
    using gone by (rule delete_file_not_found)
qed

text \<open>
  Deleting A.txt in the scenario state: success with a working \<open>unlinkSync\<close>, 500 and
  an unchanged state with a throwing one, 404 for the second request.
\<close>

theorem delete_file_blob_then_row_witness:
  "find (\<lambda>r. fi_id r = ''a1'') (files tree_state) = Some row_A \<and>
   delete_file (env_of ''r'' ''19-1'' 5) tree_state ''a1'' =
     (tree_state\<lparr>disk := Map.empty, files := []\<rparr>, Success) \<and>
   delete_file (env_of ''r'' ''19-1'' 5\<lparr>unlink_throws := always_throws\<rparr>) tree_state ''a1'' =
     (tree_state, Error 500 ''Failed to delete file'') \<and>
   delete_file (env_of ''r'' ''20-1'' 6) (tree_state\<lparr>disk := Map.empty, files := []\<rparr>) ''a1'' =
     (tree_state\<lparr>disk := Map.empty, files := []\<rparr>, Error 404 ''File not found'')"
proof -
  have h: "find (\<lambda>r. fi_id r = ''a1'') (files tree_state) = Some row_A"
    by (simp add: tree_state_eq row_A_def)
  from delete_file_blob_then_row [OF h, of "env_of ''r'' ''19-1'' 5"]
    delete_file_blob_then_row [OF h, of "env_of ''r'' ''19-1'' 5\<lparr>unlink_throws := always_throws\<rparr>"]
    h
  show ?thesis
    by (simp add: tree_state_eq row_A_def env_of_def never_throws_def always_throws_def
        existsSync_def path_join_def UPLOADS_DIR_def)
qed

subsection \<open>Uploading\<close>




subsection \<open>Downloading\<close>

text \<open>
  C4 (as amended). \<open>GET /api/files/:id/download\<close> answers 404 with the JSON body
  "File not found" when no file row has the id. When a row has it and its blob is in
  the directory, the answer is 200 with the bytes of the blob as a download named
  \<open>original_name\<close>. When a row has it and the blob is absent, the handler raises no
  error of its own: \<open>res.download\<close> fails and Express answers with its error page of
  status 404, the status of NotFound, not with a 500.
\<close>

theorem download_missing_blob_is_404:
  "(find (\<lambda>r. fi_id r = ident) (files s) = None \<longrightarrow>
      get_download s ident = (s, Error 404 ''File not found'')) \<and>
   (find (\<lambda>r. fi_id r = ident) (files s) = Some f \<and>
    disk s (path_join UPLOADS_DIR (fi_name f)) = Some bytes \<longrightarrow>
      get_download s ident = (s, Attachment bytes (original_name f))) \<and>
   (find (\<lambda>r. fi_id r = ident) (files s) = Some f \<and>
    \<not> existsSync (disk s) (path_join UPLOADS_DIR (fi_name f)) \<longrightarrow>
      get_download s ident = (s, ErrorPage 404) \<and> status (snd (get_download s ident)) = 404)"
  by (simp add: get_download_def res_download_def existsSync_def)

text \<open>
  In the scenario state: an unknown id, the download of A.txt, and the download of
  A.txt after its blob was removed.
\<close>

theorem download_missing_blob_is_404_witness:
  "find (\<lambda>r. fi_id r = ''zz'') (files tree_state) = None \<and>
   get_download tree_state ''zz'' = (tree_state, Error 404 ''File not found'') \<and>
   find (\<lambda>r. fi_id r = ''a1'') (files tree_state) = Some row_A \<and>
   disk tree_state (path_join UPLOADS_DIR (fi_name row_A)) = Some ''0123456789'' \<and>
   get_download tree_state ''a1'' = (tree_state, Attachment ''0123456789'' ''A.txt'') \<and>
   find (\<lambda>r. fi_id r = ''a1'') (files blob_lost_state) = Some row_A \<and>
   \<not> existsSync (disk blob_lost_state) (path_join UPLOADS_DIR (fi_name row_A)) \<and>
   get_download blob_lost_state ''a1'' = (blob_lost_state, ErrorPage 404)"
proof -
  have n: "find (\<lambda>r. fi_id r = ''zz'') (files tree_state) = None"
    by (simp add: tree_state_eq row_A_def)
  have f: "find (\<lambda>r. fi_id r = ''a1'') (files tree_state) = Some row_A"
    by (simp add: tree_state_eq row_A_def)
  have b: "disk tree_state (path_join UPLOADS_DIR (fi_name row_A)) = Some ''0123456789''"
    by (simp add: tree_state_eq row_A_def path_join_def UPLOADS_DIR_def)
  have g: "find (\<lambda>r. fi_id r = ''a1'') (files blob_lost_state) = Some row_A"
    by (simp add: blob_lost_state_def tree_state_eq row_A_def)
  have m: "\<not> existsSync (disk blob_lost_state) (path_join UPLOADS_DIR (fi_name row_A))"
    by (simp add: blob_lost_state_def existsSync_def)
  from download_missing_blob_is_404 [of "''zz''" tree_state row_A "''0123456789''"]
    download_missing_blob_is_404 [of "''a1''" tree_state row_A "''0123456789''"]
    download_missing_blob_is_404 [of "''a1''" blob_lost_state row_A "''0123456789''"]
    n f b g m
  show ?thesis
    by (simp add: row_A_def)
qed

text \<open>
  C4 as stated fails: with the row of A.txt present and its blob removed, the answer
  has status 404, the status of the answer for an id that no row has.
\<close>

theorem download_blob_missing_counterexample:
  "find (\<lambda>r. fi_id r = ''a1'') (files blob_lost_state) = Some row_A \<and>
   \<not> existsSync (disk blob_lost_state) (path_join UPLOADS_DIR (fi_name row_A)) \<and>
   get_download blob_lost_state ''a1'' = (blob_lost_state, ErrorPage 404) \<and>
   status (snd (get_download blob_lost_state ''a1'')) = 404 \<and>
   status (snd (get_download blob_lost_state ''zz'')) = 404"
  by (simp add: blob_lost_state_def tree_state_eq get_download_def res_download_def row_A_def
      existsSync_def path_join_def UPLOADS_DIR_def)

subsection \<open>Renaming\<close>

lemma rename_file_unknown:
  "i \<notin> set (map fi_id xs) \<Longrightarrow> map (\<lambda>r. if fi_id r = i then r\<lparr>original_name := n\<rparr> else r) xs = xs"
  by (induction xs) auto

lemma rename_folder_unknown:
  "i \<notin> set (map fo_id xs) \<Longrightarrow> map (\<lambda>r. if fo_id r = i then r\<lparr>fo_name := n\<rparr> else r) xs = xs"
  by (induction xs) auto

text \<open>
  C6 (as amended). \<open>POST /api/rename\<close> with an empty (or absent) \<open>newName\<close> answers
  400 and changes nothing, so the stored names are as before. With \<open>id\<close>, \<open>type\<close>
  and \<open>newName\<close> non-empty and an id that no row of the table chosen by \<open>type\<close>
  has, it answers with success and changes nothing: there is no 404.
\<close>

theorem rename_empty_name_or_unknown_id:
  "(falsy newName \<longrightarrow> post_rename s ident type newName = (s, Error 400 ''Missing parameters'')) \<and>
   (i \<noteq> [] \<and> t \<noteq> [] \<and> n \<noteq> [] \<and>
    (t = ''file'' \<longrightarrow> i \<notin> set (map fi_id (files s))) \<and>
    (t \<noteq> ''file'' \<longrightarrow> i \<notin> set (map fo_id (folders s))) \<longrightarrow>
      post_rename s (Some i) (Some t) (Some n) = (s, Success))"
proof (intro conjI impI)
  show "post_rename s ident type newName = (s, Error 400 ''Missing parameters'')" if "falsy newName"
    using that by (cases ident; cases type; cases newName) (simp_all add: falsy_def)
  show "post_rename s (Some i) (Some t) (Some n) = (s, Success)"
    if "i \<noteq> [] \<and> t \<noteq> [] \<and> n \<noteq> [] \<and>
        (t = ''file'' \<longrightarrow> i \<notin> set (map fi_id (files s))) \<and>
        (t \<noteq> ''file'' \<longrightarrow> i \<notin> set (map fo_id (folders s)))"
  proof (cases "t = ''file''")
    case True
    with that have "i \<notin> set (map fi_id (files s))"
      by simp
    from rename_file_unknown [OF this] that True show ?thesis
      by (simp add: falsy_def)
  next
    case False
    with that have "i \<notin> set (map fo_id (folders s))"
      by simp
    from rename_folder_unknown [OF this] that False show ?thesis
      by (simp add: falsy_def)
  qed
qed

theorem rename_empty_name_or_unknown_id_witness:
  "falsy (Some '''') \<and>
   post_rename tree_state (Some ''a1'') (Some ''file'') (Some '''') =
     (tree_state, Error 400 ''Missing parameters'') \<and>
   ''zz'' \<notin> set (map fi_id (files tree_state)) \<and>
   post_rename tree_state (Some ''zz'') (Some ''file'') (Some ''new.txt'') = (tree_state, Success)"
proof -
  have h: "falsy (Some '''')"
    by (simp add: falsy_def)
  have g: "''zz'' \<notin> set (map fi_id (files tree_state))"
    by (simp add: tree_state_eq row_A_def)
  from rename_empty_name_or_unknown_id
      [of "Some ''''" tree_state "Some ''a1''" "Some ''file''" "''zz''" "''file''" "''new.txt''"] h g
  show ?thesis
    by simp
qed

text \<open>C6 as stated fails: no file has the id \<open>zz\<close>, and renaming it succeeds.\<close>

theorem rename_not_found_counterexample:
  "find (\<lambda>r. fi_id r = ''zz'') (files tree_state) = None \<and>
   post_rename tree_state (Some ''zz'') (Some ''file'') (Some ''new.txt'') = (tree_state, Success)"
  by (simp add: tree_state_eq row_A_def falsy_def)

text \<open>
  C10 (as amended). For a rename request with non-empty \<open>id\<close> and \<open>newName\<close> whose
  non-empty \<open>type\<close> is any string other than \<open>file\<close>, the update is the one of the
  folders table (rows of that id get the new name) and the files table is as before;
  \<open>type\<close> is compared with nothing else.
\<close>

theorem rename_other_kind_updates_folders:
  "i \<noteq> [] \<Longrightarrow> n \<noteq> [] \<Longrightarrow> t \<noteq> [] \<Longrightarrow> t \<noteq> ''file'' \<Longrightarrow>
     post_rename s (Some i) (Some t) (Some n) =
       (s\<lparr>folders := map (\<lambda>r. if fo_id r = i then r\<lparr>fo_name := n\<rparr> else r) (folders s)\<rparr>, Success) \<and>
     files (fst (post_rename s (Some i) (Some t) (Some n))) = files s"
  by (simp add: falsy_def)

theorem rename_other_kind_updates_folders_witness:
  "post_rename tree_state (Some ''f1'') (Some ''symlink'') (Some ''G1'') =
     (tree_state\<lparr>folders := [\<lparr>fo_id = ''f1'', fo_name = ''G1'', parent_id = None, created_at = 1\<rparr>,
                              \<lparr>fo_id = ''f2'', fo_name = ''F2'', parent_id = Some ''f1'', created_at = 2\<rparr>]\<rparr>,
      Success) \<and>
   files (fst (post_rename tree_state (Some ''f1'') (Some ''symlink'') (Some ''G1''))) = [row_A]"
proof -
  have "''f1'' \<noteq> []" and "''G1'' \<noteq> []" and "''symlink'' \<noteq> []" and "''symlink'' \<noteq> ''file''"
    by simp_all
  from rename_other_kind_updates_folders [OF this, of tree_state] show ?thesis
    by (simp add: tree_state_eq)
qed

text \<open>
  C10 as stated fails for a request with an empty \<open>newName\<close>: its \<open>type\<close> is
  \<open>folder\<close>, and no update reaches the folders table.
\<close>

theorem rename_other_kind_counterexample:
  "post_rename tree_state (Some ''f1'') (Some ''folder'') (Some '''') =
     (tree_state, Error 400 ''Missing parameters'') \<and>
   map fo_name (folders (fst (post_rename tree_state (Some ''f1'') (Some ''folder'') (Some '''')))) =
     [''F1'', ''F2'']"
  by (simp add: tree_state_eq falsy_def)

subsection \<open>Statistics\<close>


















subsection \<open>The sentinel \<open>root\<close>\<close>

lemma rename_file_folder_ids:
  "map folder_id (map (\<lambda>r. if fi_id r = i then r\<lparr>original_name := n\<rparr> else r) xs) = map folder_id xs"
  by (induction xs) auto

lemma rename_folder_parent_ids:
  "map parent_id (map (\<lambda>r. if fo_id r = i then r\<lparr>fo_name := n\<rparr> else r) xs) = map parent_id xs"
  by (induction xs) auto

lemma post_rename_refs:
  "map folder_id (files (fst (post_rename s ident type newName))) = map folder_id (files s) \<and>
   map parent_id (folders (fst (post_rename s ident type newName))) = map parent_id (folders s)"
  by (cases ident; cases type; cases newName)
    (simp_all add: rename_file_folder_ids rename_folder_parent_ids)

lemma bind_last_plain:
  "plain v \<Longrightarrow> bind_last (if v = Str ''root'' then Null else v) \<noteq> Inr (Some ''root'')"
  by (cases v) (simp_all add: bind_last_def bind_value_def)

lemma no_root_step: "no_root s \<Longrightarrow> plain_request r \<Longrightarrow> no_root (fst (handle e s r))"
proof (cases r)
  case (PostRename ident type newName)
  assume "no_root s"
  then show ?thesis
    unfolding no_root_def PostRename handle.simps using post_rename_refs [of s ident type newName]
    by simp
next
  case (PostFolders name parentId)
  assume "no_root s" and "plain_request r"
  with bind_last_plain [of parentId] show ?thesis
    by (auto simp: no_root_def PostFolders post_folders_def insert_folder_def Let_def
        split: option.splits if_splits sum.splits)
next
  case (PostUpload part folderId)
  assume "no_root s" and "plain_request r"
  with bind_last_plain [of folderId] show ?thesis
    by (auto simp: no_root_def PostUpload post_upload_def upload_single_def insert_file_def Let_def
        split: option.splits if_splits sum.splits)
next
  case (DeleteFolder ident)
  assume "no_root s"
  then show ?thesis
    by (auto simp: no_root_def DeleteFolder delete_folder_def Let_def split: prod.splits option.splits)
next
  case (DeleteFile ident)
  assume "no_root s"
  then show ?thesis
    by (auto simp: no_root_def DeleteFile delete_file_def Let_def split: option.splits sum.splits)
qed (auto simp: no_root_def get_contents_def get_files_def get_download_def get_view_def
      get_stats_def Let_def split: option.splits sum.splits)

text \<open>
  What holds of the translation: a reference sent as the string \<open>root\<close> is stored as
  null, and no request whose reference is a string, null or absent stores \<open>root\<close>.
\<close>

lemma post_folders_root_is_null:
  "n \<noteq> [] \<Longrightarrow> random_id e \<notin> set (map fo_id (folders s)) \<Longrightarrow>
   post_folders e s (Some n) (Str ''root'') =
     (s\<lparr>folders := folders s @
          [\<lparr>fo_id = random_id e, fo_name = n, parent_id = None, created_at = timestamp e\<rparr>]\<rparr>,
      Created (random_id e) n)"
  by (simp add: post_folders_def insert_folder_def bind_last_def bind_value_def Let_def)

lemma post_upload_root_is_null:
  "random_id e \<notin> set (map fi_id (files s)) \<Longrightarrow>
   folder_id (last (files (fst (post_upload e s (Some p) (Str ''root''))))) = None"
  by (simp add: post_upload_def upload_single_def insert_file_def bind_last_def bind_value_def Let_def)

lemma reachable_plain_no_root: "reachable_plain s \<Longrightarrow> no_root s"
  by (induction rule: reachable_plain.induct) (simp add: no_root_def init_def, simp add: no_root_step)

text \<open>
  C9 fails on the code. The claim: every operation translates the sentinel \<open>root\<close> to
  null, so that in no reachable state a stored \<open>parent_id\<close> or \<open>folder_id\<close> is the
  string \<open>root\<close>. The handler compares \<open>parentId\<close> with \<open>===\<close>, which the array
  \<open>["root"]\<close> passes; the driver binds the element of the array, and the folder row
  created on the empty store has \<open>parent_id = "root"\<close>.
\<close>

theorem root_sentinel_stored_from_array:
  "reachable array_root_state \<and>
   post_folders (env_of ''f3'' ''21-3'' 6) init (Some ''F3'') (Arr [Str ''root'']) =
     (array_root_state, Created ''f3'' ''F3'') \<and>
   folders array_root_state =
     [\<lparr>fo_id = ''f3'', fo_name = ''F3'', parent_id = Some ''root'', created_at = 6\<rparr>]"
proof -
  have "reachable (fst (handle (env_of ''f3'' ''21-3'' 6) init
      (PostFolders (Some ''F3'') (Arr [Str ''root'']))))"
    by (intro reachable_step reachable_init)
  then have "reachable array_root_state"
    by (simp add: array_root_state_def)
  then show ?thesis
    by (simp add: array_root_state_def post_folders_def insert_folder_def bind_last_def
        bind_value_def env_of_def init_def Let_def)
qed

end
